theory Spec2Isabelle
  imports Complex_Main
begin

section \<open>Exceptions and arrays\<close>

text \<open>
  The Python exceptions that the modelled code paths can raise. A function that may raise
  returns \<open>py_error + 'a\<close>, with \<open>Inl\<close> for the exception.
\<close>

datatype py_error =
    ValueError
  | AxisError
  | AttributeError
  | FileNotFoundError
  | PermissionError
  | UnpicklingError
  | EOFError

text \<open>
  A three-dimensional numeric array, as numpy has it: a shape and the items. The axes of a raw
  series tensor are (sample, variable, day). Numeric values are exact rationals: rounding and
  the non-finite floats are outside this part of the model.
\<close>

record ndarray3 =
  shape0 :: nat
  shape1 :: nat
  shape2 :: nat
  item :: "nat \<Rightarrow> nat \<Rightarrow> nat \<Rightarrow> rat"


text \<open>The slice \<open>data[:, i, :]\<close>: one row of day values per sample.\<close>

definition slice_variable :: "ndarray3 \<Rightarrow> nat \<Rightarrow> rat list list" where
  "slice_variable data i =
     map (\<lambda>s. map (\<lambda>d. item data s i d) [0..<shape2 data]) [0..<shape0 data]"

section \<open>The numpy functions the transformer calls\<close>








text \<open>
  \<open>np.apply_along_axis(f, axis=1, arr)\<close> on a two-dimensional array: \<open>f\<close> is applied to each
  row in turn, the first exception ends the call, and an array without rows raises ValueError.
\<close>

fun apply_rows :: "('a \<Rightarrow> py_error + 'b) \<Rightarrow> 'a list \<Rightarrow> py_error + 'b list" where
  "apply_rows f [] = Inr []"
| "apply_rows f (x # xs) =
     (case f x of
        Inl e \<Rightarrow> Inl e
      | Inr y \<Rightarrow> (case apply_rows f xs of Inl e \<Rightarrow> Inl e | Inr ys \<Rightarrow> Inr (y # ys)))"

definition apply_along_axis1 :: "('a \<Rightarrow> py_error + 'b) \<Rightarrow> 'a list \<Rightarrow> py_error + 'b list" where
  "apply_along_axis1 f arr = (if arr = [] then Inl ValueError else apply_rows f arr)"


section \<open>HistogramTransformer\<close>









section \<open>RandomForestClassification: labels\<close>

text \<open>
  The data manager is a collaborator outside these sources: it returns, for the name of a
  definition, the raw label series, one row of day values per sample. The test manager exists
  only when a test path was given.
\<close>

record DataManager =
  get_data_for_variable :: "string \<Rightarrow> int list list"

record RandomForestClassification =
  data_manager_train :: DataManager
  data_manager_test :: "DataManager option"
  definition_key :: string

text \<open>The reduction of one row: \<open>1 if 1 in a else 0\<close>.\<close>

definition any_day_is_one :: "int list \<Rightarrow> py_error + int" where
  "any_day_is_one a = Inr (if 1 \<in> set a then 1 else 0)"

definition get_labels :: "RandomForestClassification \<Rightarrow> bool \<Rightarrow> py_error + int list" where
  "get_labels self train =
     (if train
      then apply_along_axis1 any_day_is_one
             (get_data_for_variable (data_manager_train self) (definition_key self))
      else case data_manager_test self of
             None \<Rightarrow> Inl AttributeError
           | Some dm \<Rightarrow>
               apply_along_axis1 any_day_is_one (get_data_for_variable dm (definition_key self)))"

section \<open>XGBoostPredict: features, cache and split\<close>

text \<open>
  Feature values are floats: a finite number, NaN or an infinity. \<open>np.nan_to_num\<close> with its
  default arguments turns NaN into zero, positive infinity into the largest finite float and
  negative infinity into the most negative one; \<open>float_max\<close> is the largest finite double.
\<close>

datatype fval = Finite rat | NaN | PosInf | NegInf

type_synonym fmatrix = "fval list list"

type_synonym split_result = "fmatrix \<times> fmatrix \<times> int list \<times> int list"

definition float_max :: rat where
  "float_max = (2 ^ 53 - 1) * 2 ^ 971"

fun nan_to_num1 :: "fval \<Rightarrow> fval" where
  "nan_to_num1 NaN = Finite 0"
| "nan_to_num1 PosInf = Finite float_max"
| "nan_to_num1 NegInf = Finite (- float_max)"
| "nan_to_num1 (Finite x) = Finite x"

definition nan_to_num :: "fmatrix \<Rightarrow> fmatrix" where
  "nan_to_num features = map (map nan_to_num1) features"

text \<open>
  What opening and unpickling the file at \<open>pickle_path\<close> finds: no file, a failure other than
  the missing file while opening or reading it, or a stored pair of a feature matrix and its
  column keys. The object holds the file and the attribute \<open>feature_keys\<close>.
\<close>

datatype cache_file = Missing | Unreadable py_error | Pickled fmatrix "string list"

record XGBoostPredict =
  pickle_file :: cache_file
  feature_keys :: "string list option"

text \<open>
  What the method calls outside these sources: the prediction set (its labels and its series
  cut at the cutoff point), the inherited \<open>_produce_features\<close> (it returns the features and
  leaves their keys in \<open>self.feature_keys\<close>), \<open>train_test_split\<close> with the test size, the
  stratification and the seed the method fixes, and \<open>SMOTE().fit_resample\<close>. Each is a
  parameter; one that can raise returns a sum.
\<close>

record collaborators =
  labels_for_prediction :: "int list list"
  cutoff_for_prediction :: "fval list list list"
  produce_features :: "fmatrix \<Rightarrow> py_error + fmatrix \<times> string list"
  train_test_split :: "fmatrix \<Rightarrow> int list \<Rightarrow> py_error + split_result"
  fit_resample :: "fmatrix \<Rightarrow> int list \<Rightarrow> py_error + fmatrix \<times> int list"

definition bring_data_to_format :: "fval list list list \<Rightarrow> fmatrix" where
  "bring_data_to_format temp_data =
     (let feature_count = (case temp_data of [] \<Rightarrow> 0 | sample # _ \<Rightarrow> length sample)
      in concat (map (\<lambda>sample. map (\<lambda>j. sample ! j) [0..<feature_count]) temp_data))"

definition pickle_load :: "cache_file \<Rightarrow> py_error + fmatrix \<times> string list" where
  "pickle_load f =
     (case f of
        Missing \<Rightarrow> Inl FileNotFoundError
      | Unreadable e \<Rightarrow> Inl e
      | Pickled features keys \<Rightarrow> Inr (features, keys))"

text \<open>
  The \<open>try\<close> block and its handler: only FileNotFoundError is caught; then the features are
  produced and the pair is written to the file. Writing is taken to succeed.
\<close>

definition load_or_produce_features ::
    "collaborators \<Rightarrow> XGBoostPredict \<Rightarrow> (py_error + fmatrix) \<times> XGBoostPredict" where
  "load_or_produce_features env self =
     (case pickle_load (pickle_file self) of
        Inr (features, keys) \<Rightarrow> (Inr features, self\<lparr>feature_keys := Some keys\<rparr>)
      | Inl e \<Rightarrow>
          if e = FileNotFoundError then
            (let data = bring_data_to_format (cutoff_for_prediction env)
             in case produce_features env data of
                  Inl e' \<Rightarrow> (Inl e', self)
                | Inr (features, keys) \<Rightarrow>
                    (Inr features,
                     self\<lparr>feature_keys := Some keys, pickle_file := Pickled features keys\<rparr>))
          else (Inl e, self))"

text \<open>The rest of the method: fill, split, oversample the training part.\<close>

definition split_and_oversample ::
    "collaborators \<Rightarrow> fmatrix \<Rightarrow> int list \<Rightarrow> py_error + split_result" where
  "split_and_oversample env features labels =
     (case train_test_split env (nan_to_num features) labels of
        Inl e \<Rightarrow> Inl e
      | Inr (X_train, X_test, y_train, y_test) \<Rightarrow>
          (case fit_resample env X_train y_train of
             Inl e \<Rightarrow> Inl e
           | Inr (X_res, y_res) \<Rightarrow> Inr (X_res, X_test, y_res, y_test)))"

definition preprocess_as_prediction ::
    "collaborators \<Rightarrow> XGBoostPredict \<Rightarrow> (py_error + split_result) \<times> XGBoostPredict" where
  "preprocess_as_prediction env self =
     (let labels = concat (labels_for_prediction env)
      in case load_or_produce_features env self of
           (Inl e, self') \<Rightarrow> (Inl e, self')
         | (Inr features, self') \<Rightarrow> (split_and_oversample env features labels, self'))"

section \<open>Notions used to state the properties\<close>

















text \<open>
  The balance of a label vector: the size of its smallest class over the size of its largest
  one, 1 when all classes are equally frequent. An oversampler keeps its contract when the
  labels it returns are balanced.
\<close>

definition class_counts :: "int list \<Rightarrow> nat list" where
  "class_counts y = map (count_list y) (remdups y)"

definition balance_ratio :: "int list \<Rightarrow> rat" where
  "balance_ratio y =
     (if y = [] then 1
      else of_nat (Min (set (class_counts y))) / of_nat (Max (set (class_counts y))))"

definition balanced :: "int list \<Rightarrow> bool" where
  "balanced y = (\<forall>c\<in>set y. \<forall>c'\<in>set y. count_list y c = count_list y c')"

definition oversampler_balances ::
    "(fmatrix \<Rightarrow> int list \<Rightarrow> py_error + fmatrix \<times> int list) \<Rightarrow> bool" where
  "oversampler_balances f = (\<forall>X y X' y'. f X y = Inr (X', y') \<longrightarrow> balanced y')"

section \<open>Example collaborators and data\<close>

text \<open>
  Functions that stand for the library calls in the examples. \<open>holdout_fifth\<close> moves the first
  fifth of every class to the test part and refuses inputs of different lengths or a class
  with a single member; on class sizes that are multiples of five it yields the class counts
  of a stratified split with test size 0.2 (which samples the library draws depends on its
  seeded shuffle, the counts do not). \<open>repeat_minority\<close> returns balanced 0/1 labels unchanged,
  and otherwise appends copies of minority rows until both classes have the size of the
  larger one, refusing a minority of fewer than six rows as the default five neighbours
  require. \<open>first_two_days\<close> takes the first two days of every row as features.
\<close>

definition in_test_part :: "int list \<Rightarrow> nat \<Rightarrow> bool" where
  "in_test_part y i = (count_list (take i y) (y ! i) < count_list y (y ! i) div 5)"

definition holdout_fifth :: "fmatrix \<Rightarrow> int list \<Rightarrow> py_error + split_result" where
  "holdout_fifth X y =
     (if length X \<noteq> length y \<or> (\<exists>c\<in>set y. count_list y c < 2) then Inl ValueError
      else let test = filter (in_test_part y) [0..<length y];
               train = filter (\<lambda>i. \<not> in_test_part y i) [0..<length y]
           in Inr (map (\<lambda>i. X ! i) train, map (\<lambda>i. X ! i) test,
                   map (\<lambda>i. y ! i) train, map (\<lambda>i. y ! i) test))"

definition repeat_minority :: "fmatrix \<Rightarrow> int list \<Rightarrow> py_error + fmatrix \<times> int list" where
  "repeat_minority X y =
     (let n0 = count_list y 0; n1 = count_list y 1
      in if length X \<noteq> length y \<or> (\<exists>c\<in>set y. c \<noteq> 0 \<and> c \<noteq> 1) \<or> n0 = 0 \<or> n1 = 0
         then Inl ValueError
         else let minority = (if n1 < n0 then 1 else 0);
                  k = max n0 n1 - min n0 n1;
                  rows = map fst (filter (\<lambda>(x, l). l = minority) (zip X y))
              in if k = 0 then Inr (X, y)
                 else if length rows \<le> 5 then Inl ValueError
                 else Inr (X @ map (\<lambda>i. rows ! (i mod length rows)) [0..<k],
                           y @ replicate k minority))"

definition first_two_days :: "fmatrix \<Rightarrow> py_error + fmatrix \<times> string list" where
  "first_two_days data = Inr (map (take 2) data, [''day0'', ''day1''])"

definition example_cutoff :: "fval list list list" where
  "example_cutoff = map (\<lambda>i. [[Finite (of_nat i), Finite 1, NaN]]) [0..<10]"

definition forecast_env :: "int list list \<Rightarrow> collaborators" where
  "forecast_env labels =
     \<lparr>labels_for_prediction = labels,
      cutoff_for_prediction = example_cutoff,
      produce_features = first_two_days,
      train_test_split = holdout_fifth,
      fit_resample = repeat_minority\<rparr>"

text \<open>
  Label vectors with equal and with unequal classes, feature matrices, and objects whose
  cache file holds a matrix or another content.
\<close>

definition balanced_labels :: "int list list" where
  "balanced_labels = [[0], [1], [0], [1], [0], [1], [0], [1], [0], [1]]"

definition skewed_labels :: "int list list" where
  "skewed_labels = map (\<lambda>i. [if i mod 5 < 3 then 0 else 1]) [0..<25]"

definition numbered_rows :: "nat \<Rightarrow> fmatrix" where
  "numbered_rows n = map (\<lambda>i. [Finite (of_nat i), Finite 1]) [0..<n]"


definition cached :: "fmatrix \<Rightarrow> string list \<Rightarrow> XGBoostPredict" where
  "cached features keys = \<lparr>pickle_file = Pickled features keys, feature_keys = None\<rparr>"

definition uncached :: "cache_file \<Rightarrow> XGBoostPredict" where
  "uncached f = \<lparr>pickle_file = f, feature_keys = None\<rparr>"

text \<open>Raw label series and a classifier object whose training data manager returns them.\<close>

definition example_raw_labels :: "int list list" where
  "example_raw_labels = [[0, 0, 1, 0], [0, 0, 0, 0], [1, 1, 1, 1]]"

definition labelled_with :: "int list list \<Rightarrow> RandomForestClassification" where
  "labelled_with raw_labels =
     \<lparr>data_manager_train = \<lparr>get_data_for_variable = (\<lambda>name. raw_labels)\<rparr>,
      data_manager_test = None, definition_key = ''CP07''\<rparr>"

section \<open>Bins\<close>







section \<open>Histograms of one variable\<close>

lemma apply_rows_map:
  "(\<And>x. x \<in> set xs \<Longrightarrow> f x = Inr (g x)) \<Longrightarrow> apply_rows f xs = Inr (map g xs)"
  by (induction xs) simp_all









lemma slice_variable_nth:
  "s < shape0 X \<Longrightarrow> slice_variable X v ! s = map (\<lambda>d. item X s v d) [0..<shape2 X]"
  by (simp add: slice_variable_def)















section \<open>The feature matrix\<close>







section \<open>Properties of the histogram transformer\<close>





















section \<open>Properties of the label reduction\<close>

text \<open>
  Claim C3, amended. For a raw label tensor with at least one sample row, \<open>_get_labels\<close>
  returns a vector of zeros and ones with one entry per sample: the entry is 1 exactly when
  some day of the row has the value 1. For a row of zeros and ones that is exactly when some
  day is positive.
\<close>
theorem get_labels_any_day_one:
  assumes "raw = get_data_for_variable (data_manager_train self) (definition_key self)"
    and "raw \<noteq> []"
  shows "\<exists>y. get_labels self True = Inr y \<and> length y = length raw \<and>
     (\<forall>i<length raw.
        (y ! i = 0 \<or> y ! i = 1) \<and>
        (y ! i = 1 \<longleftrightarrow> (\<exists>d\<in>set (raw ! i). d = 1)) \<and>
        ((\<forall>d\<in>set (raw ! i). d = 0 \<or> d = 1) \<longrightarrow>
           (y ! i = 1 \<longleftrightarrow> (\<exists>d\<in>set (raw ! i). 0 < d))))"
proof -
  define y where "y = map (\<lambda>a. if 1 \<in> set a then 1 else (0::int)) raw"
  have "apply_rows any_day_is_one raw = Inr y"
    unfolding y_def by (rule apply_rows_map) (simp add: any_day_is_one_def)
  then have "get_labels self True = Inr y"
    using assms by (simp add: get_labels_def apply_along_axis1_def)
  moreover have "length y = length raw" by (simp add: y_def)
  moreover have "(y ! i = 0 \<or> y ! i = 1) \<and>
        (y ! i = 1 \<longleftrightarrow> (\<exists>d\<in>set (raw ! i). d = 1)) \<and>
        ((\<forall>d\<in>set (raw ! i). d = 0 \<or> d = 1) \<longrightarrow>
           (y ! i = 1 \<longleftrightarrow> (\<exists>d\<in>set (raw ! i). 0 < d)))" if "i < length raw" for i
    using that by (auto simp: y_def intro: bexI [of _ 1])
  ultimately show ?thesis by blast
qed

theorem get_labels_any_day_one_witness:
  "example_raw_labels =
     get_data_for_variable (data_manager_train (labelled_with example_raw_labels))
       (definition_key (labelled_with example_raw_labels)) \<and>
   example_raw_labels \<noteq> [] \<and>
   example_raw_labels = [[0, 0, 1, 0], [0, 0, 0, 0], [1, 1, 1, 1]] \<and>
   get_labels (labelled_with example_raw_labels) True = Inr [1, 0, 1] \<and>
   (\<exists>y. get_labels (labelled_with example_raw_labels) True = Inr y \<and>
     length y = length example_raw_labels \<and>
     (\<forall>i<length example_raw_labels.
        (y ! i = 0 \<or> y ! i = 1) \<and>
        (y ! i = 1 \<longleftrightarrow> (\<exists>d\<in>set (example_raw_labels ! i). d = 1)) \<and>
        ((\<forall>d\<in>set (example_raw_labels ! i). d = 0 \<or> d = 1) \<longrightarrow>
           (y ! i = 1 \<longleftrightarrow> (\<exists>d\<in>set (example_raw_labels ! i). 0 < d)))))"
proof -
  have h1: "example_raw_labels =
     get_data_for_variable (data_manager_train (labelled_with example_raw_labels))
       (definition_key (labelled_with example_raw_labels))"
    by (simp add: labelled_with_def)
  have h2: "example_raw_labels \<noteq> []"
    by (simp add: example_raw_labels_def)
  have v: "get_labels (labelled_with example_raw_labels) True = Inr [1, 0, 1]"
    by code_simp
  show ?thesis
    by (intro conjI h1 h2 v example_raw_labels_def get_labels_any_day_one [OF h1 h2])
qed

text \<open>
  Claim C3 as first stated maps every row with a positive day to 1 and covers every tensor.
  The row 0, 2, 0 has a positive day and is mapped to 0, and a tensor without rows raises
  ValueError.
\<close>
theorem get_labels_counterexample:
  "get_labels (labelled_with [[0, 2, 0]]) True = Inr [0] \<and> (\<exists>d\<in>set [0, 2, 0 :: int]. 0 < d) \<and>
   get_labels (labelled_with []) True = Inl ValueError"
  by (simp add: get_labels_def labelled_with_def apply_along_axis1_def any_day_is_one_def)

section \<open>Filling, cache and split\<close>








lemma preprocess_cached:
  assumes "pickle_file self = Pickled F K"
  shows "preprocess_as_prediction env self =
     (split_and_oversample env F (concat (labels_for_prediction env)),
      self\<lparr>feature_keys := Some K\<rparr>)"
  using assms
  by (simp add: preprocess_as_prediction_def load_or_produce_features_def pickle_load_def)








text \<open>
  Claim C7, amended. On a cache hit \<open>preprocess_as_prediction\<close> makes no check of the cached key
  list: the result is the same for every key list stored with the matrix, the list only
  replaces \<open>feature_keys\<close>, the file stays as it was, and an error can only be one raised by
  the split or the oversampling.
\<close>
theorem cached_key_list_not_checked:
  "fst (preprocess_as_prediction env (self\<lparr>pickle_file := Pickled F K\<rparr>)) =
     fst (preprocess_as_prediction env (self\<lparr>pickle_file := Pickled F K'\<rparr>)) \<and>
   feature_keys (snd (preprocess_as_prediction env (self\<lparr>pickle_file := Pickled F K\<rparr>))) = Some K \<and>
   pickle_file (snd (preprocess_as_prediction env (self\<lparr>pickle_file := Pickled F K\<rparr>))) =
     Pickled F K \<and>
   (fst (preprocess_as_prediction env (self\<lparr>pickle_file := Pickled F K\<rparr>)) = Inl e \<longrightarrow>
      split_and_oversample env F (concat (labels_for_prediction env)) = Inl e)"
  by (simp add: preprocess_cached)

theorem cached_key_list_not_checked_witness:
  "fst (preprocess_as_prediction (forecast_env balanced_labels)
          ((uncached Missing)\<lparr>pickle_file := Pickled (numbered_rows 3) [''only_key'']\<rparr>)) =
     fst (preprocess_as_prediction (forecast_env balanced_labels)
          ((uncached Missing)\<lparr>pickle_file := Pickled (numbered_rows 3) [''day0'', ''day1'']\<rparr>)) \<and>
   feature_keys (snd (preprocess_as_prediction (forecast_env balanced_labels)
          ((uncached Missing)\<lparr>pickle_file := Pickled (numbered_rows 3) [''only_key'']\<rparr>))) =
     Some [''only_key''] \<and>
   pickle_file (snd (preprocess_as_prediction (forecast_env balanced_labels)
          ((uncached Missing)\<lparr>pickle_file := Pickled (numbered_rows 3) [''only_key'']\<rparr>))) =
     Pickled (numbered_rows 3) [''only_key''] \<and>
   fst (preprocess_as_prediction (forecast_env balanced_labels)
          ((uncached Missing)\<lparr>pickle_file := Pickled (numbered_rows 3) [''only_key'']\<rparr>)) =
     Inl ValueError \<and>
   split_and_oversample (forecast_env balanced_labels) (numbered_rows 3)
       (concat (labels_for_prediction (forecast_env balanced_labels))) = Inl ValueError"
proof -
  note t = cached_key_list_not_checked [where env = "forecast_env balanced_labels"
      and self = "uncached Missing" and F = "numbered_rows 3" and K = "[''only_key'']"
      and K' = "[''day0'', ''day1'']" and e = ValueError]
  have e: "fst (preprocess_as_prediction (forecast_env balanced_labels)
          ((uncached Missing)\<lparr>pickle_file := Pickled (numbered_rows 3) [''only_key'']\<rparr>)) =
     Inl ValueError"
    by code_simp
  show ?thesis
    using t e by blast
qed

text \<open>
  Claim C7 as first stated has the run end in a configuration error on a cached key list of
  the wrong length. A cached matrix of two columns stored with one key, where this run would
  produce two keys, is split and oversampled without any error, and the one key becomes
  \<open>feature_keys\<close>.
\<close>
theorem cached_key_list_counterexample:
  "preprocess_as_prediction (forecast_env balanced_labels) (cached (numbered_rows 10) [''only_key'']) =
     (Inr (drop 2 (numbered_rows 10), take 2 (numbered_rows 10),
           [0, 1, 0, 1, 0, 1, 0, 1], [0, 1]),
      \<lparr>pickle_file = Pickled (numbered_rows 10) [''only_key''],
       feature_keys = Some [''only_key'']\<rparr>) \<and>
   list_all (\<lambda>row. length row = 2) (numbered_rows 10) \<and> length [''only_key''] = 1 \<and>
   produce_features (forecast_env balanced_labels)
       (bring_data_to_format (cutoff_for_prediction (forecast_env balanced_labels))) =
     Inr (numbered_rows 10, [''day0'', ''day1''])"
  by code_simp

section \<open>Balance of label vectors\<close>

lemma set_class_counts: "set (class_counts y) = count_list y ` set y"
  by (simp add: class_counts_def)

lemma class_counts_pos: "n \<in> set (class_counts y) \<Longrightarrow> 0 < n"
proof -
  assume "n \<in> set (class_counts y)"
  then obtain c where "c \<in> set y" "n = count_list y c"
    by (auto simp: set_class_counts)
  then show "0 < n"
    using count_list_0_iff [of y c] by simp
qed

lemma class_counts_nonempty: "y \<noteq> [] \<Longrightarrow> set (class_counts y) \<noteq> {}"
  unfolding set_class_counts by simp

lemma balance_ratio_le_1: "balance_ratio y \<le> 1"
proof (cases "y = []")
  case True
  then show ?thesis by (simp add: balance_ratio_def)
next
  case False
  define S where "S = set (class_counts y)"
  have ne: "S \<noteq> {}" and fin: "finite S"
    using False class_counts_nonempty [of y] unfolding S_def by blast+
  have "Min S \<le> Max S" using ne fin by simp
  moreover have "0 < Max S"
    using ne fin class_counts_pos [of "Max S" y] Max_in [of S] by (simp add: S_def)
  ultimately show ?thesis
    using False by (simp add: balance_ratio_def S_def [symmetric])
qed

lemma balance_ratio_eq_1_iff: "balance_ratio y = 1 \<longleftrightarrow> balanced y"
proof (cases "y = []")
  case True
  then show ?thesis by (simp add: balance_ratio_def balanced_def)
next
  case False
  define S where "S = set (class_counts y)"
  have ne: "S \<noteq> {}" and fin: "finite S"
    using False class_counts_nonempty [of y] unfolding S_def by blast+
  have pos: "0 < Max S"
    using ne fin class_counts_pos [of "Max S" y] Max_in [of S] by (simp add: S_def)
  have "balance_ratio y = 1 \<longleftrightarrow> Min S = Max S"
    using False pos by (auto simp: balance_ratio_def S_def [symmetric])
  also have "\<dots> \<longleftrightarrow> (\<forall>a\<in>S. \<forall>b\<in>S. a = b)"
  proof
    assume eq: "Min S = Max S"
    show "\<forall>a\<in>S. \<forall>b\<in>S. a = b"
    proof (intro ballI)
      fix a b assume "a \<in> S" "b \<in> S"
      then have "Min S \<le> a" "a \<le> Max S" "Min S \<le> b" "b \<le> Max S"
        using fin by simp_all
      with eq show "a = b" by simp
    qed
  next
    assume "\<forall>a\<in>S. \<forall>b\<in>S. a = b"
    then show "Min S = Max S"
      using ne fin Min_in [of S] Max_in [of S] by blast
  qed
  also have "\<dots> \<longleftrightarrow> balanced y"
    by (auto simp: S_def set_class_counts balanced_def)
  finally show ?thesis .
qed

lemma count_list_replicate: "count_list (replicate k m) c = (if c = m then k else 0)"
  by (induction k) auto

lemma repeat_minority_balances: "oversampler_balances repeat_minority"
proof -
  have "balanced y'" if res: "repeat_minority X y = Inr (X', y')" for X y X' y'
  proof -
    define n0 where "n0 = count_list y 0"
    define n1 where "n1 = count_list y 1"
    define m :: int where "m = (if n1 < n0 then 1 else 0)"
    define k where "k = max n0 n1 - min n0 n1"
    have bin: "\<And>c. c \<in> set y \<Longrightarrow> c = 0 \<or> c = 1"
      using res by (auto simp: repeat_minority_def Let_def split: if_splits)
    have y': "y' = y @ replicate k m"
      using res
      by (auto simp: repeat_minority_def Let_def n0_def n1_def m_def k_def split: if_splits)
    have c0: "count_list y' 0 = max n0 n1"
      by (auto simp: y' count_list_replicate n0_def [symmetric] m_def k_def)
    have c1: "count_list y' 1 = max n0 n1"
      by (auto simp: y' count_list_replicate n1_def [symmetric] m_def k_def)
    have "c = 0 \<or> c = 1" if "c \<in> set y'" for c
      using that bin by (auto simp: y' m_def split: if_splits)
    then show ?thesis
      unfolding balanced_def using c0 c1 by metis
  qed
  then show ?thesis by (simp add: oversampler_balances_def)
qed

text \<open>
  Claim C4, amended. When \<open>preprocess_as_prediction\<close> returns, the test features and test labels
  are exactly the test part of the split of the filled feature matrix and the labels, and
  the training part is what the oversampler returns for the training part of that split. With
  an oversampler that returns balanced labels, the returned training labels are balanced, at
  least as balanced as the original label vector, and strictly more balanced exactly when the
  original label vector is not itself balanced.
\<close>
theorem oversampling_train_only:
  assumes contract: "oversampler_balances (fit_resample env)"
    and res: "preprocess_as_prediction env self = (Inr (X_train, X_test, y_train, y_test), self')"
  shows "\<exists>F X0 y0.
     load_or_produce_features env self = (Inr F, self') \<and>
     train_test_split env (nan_to_num F) (concat (labels_for_prediction env)) =
       Inr (X0, X_test, y0, y_test) \<and>
     fit_resample env X0 y0 = Inr (X_train, y_train) \<and>
     balance_ratio y_train = 1 \<and>
     balance_ratio (concat (labels_for_prediction env)) \<le> balance_ratio y_train \<and>
     (balance_ratio (concat (labels_for_prediction env)) < balance_ratio y_train \<longleftrightarrow>
        \<not> balanced (concat (labels_for_prediction env)))"
proof -
  define labels where "labels = concat (labels_for_prediction env)"
  obtain F where load: "load_or_produce_features env self = (Inr F, self')"
    and so: "split_and_oversample env F labels = Inr (X_train, X_test, y_train, y_test)"
    using res
    by (auto simp: preprocess_as_prediction_def labels_def split: prod.splits sum.splits)
  obtain X0 y0 where split: "train_test_split env (nan_to_num F) labels = Inr (X0, X_test, y0, y_test)"
    and over: "fit_resample env X0 y0 = Inr (X_train, y_train)"
    using so by (auto simp: split_and_oversample_def split: prod.splits sum.splits)
  have "balanced y_train"
    using contract over by (auto simp: oversampler_balances_def)
  then have one: "balance_ratio y_train = 1"
    by (simp add: balance_ratio_eq_1_iff)
  have "balance_ratio labels < 1 \<longleftrightarrow> \<not> balanced labels"
    using balance_ratio_le_1 [of labels] balance_ratio_eq_1_iff [of labels] by auto
  then show ?thesis
    using load split over one balance_ratio_le_1 [of labels]
    unfolding labels_def by auto
qed

theorem oversampling_train_only_witness:
  "oversampler_balances (fit_resample (forecast_env skewed_labels)) \<and>
   preprocess_as_prediction (forecast_env skewed_labels) (cached (numbered_rows 25) [''day0'', ''day1'']) =
     (Inr (map (\<lambda>i. numbered_rows 25 ! i) ([5..<25] @ [8, 9, 13, 14]), take 5 (numbered_rows 25),
           concat (replicate 4 [0, 0, 0, 1, 1]) @ [1, 1, 1, 1], [0, 0, 0, 1, 1]),
      (cached (numbered_rows 25) [''day0'', ''day1''])\<lparr>feature_keys := Some [''day0'', ''day1'']\<rparr>) \<and>
   balance_ratio (concat skewed_labels) = 2 / 3 \<and>
   (\<exists>F X0 y0.
     load_or_produce_features (forecast_env skewed_labels)
         (cached (numbered_rows 25) [''day0'', ''day1'']) =
       (Inr F, (cached (numbered_rows 25) [''day0'', ''day1''])\<lparr>feature_keys := Some [''day0'', ''day1'']\<rparr>) \<and>
     train_test_split (forecast_env skewed_labels) (nan_to_num F)
         (concat (labels_for_prediction (forecast_env skewed_labels))) =
       Inr (X0, take 5 (numbered_rows 25), y0, [0, 0, 0, 1, 1]) \<and>
     fit_resample (forecast_env skewed_labels) X0 y0 =
       Inr (map (\<lambda>i. numbered_rows 25 ! i) ([5..<25] @ [8, 9, 13, 14]),
            concat (replicate 4 [0, 0, 0, 1, 1]) @ [1, 1, 1, 1]) \<and>
     balance_ratio (concat (replicate 4 [0, 0, 0, 1, 1]) @ [1, 1, 1, 1]) = 1 \<and>
     balance_ratio (concat (labels_for_prediction (forecast_env skewed_labels))) \<le>
       balance_ratio (concat (replicate 4 [0, 0, 0, 1, 1]) @ [1, 1, 1, 1]) \<and>
     (balance_ratio (concat (labels_for_prediction (forecast_env skewed_labels))) <
        balance_ratio (concat (replicate 4 [0, 0, 0, 1, 1]) @ [1, 1, 1, 1]) \<longleftrightarrow>
      \<not> balanced (concat (labels_for_prediction (forecast_env skewed_labels)))))"
proof -
  have h1: "oversampler_balances (fit_resample (forecast_env skewed_labels))"
    by (simp add: forecast_env_def repeat_minority_balances)
  have h2: "preprocess_as_prediction (forecast_env skewed_labels)
       (cached (numbered_rows 25) [''day0'', ''day1'']) =
     (Inr (map (\<lambda>i. numbered_rows 25 ! i) ([5..<25] @ [8, 9, 13, 14]), take 5 (numbered_rows 25),
           concat (replicate 4 [0, 0, 0, 1, 1]) @ [1, 1, 1, 1], [0, 0, 0, 1, 1]),
      (cached (numbered_rows 25) [''day0'', ''day1''])\<lparr>feature_keys := Some [''day0'', ''day1'']\<rparr>)"
    by code_simp
  have r: "balance_ratio (concat skewed_labels) = 2 / 3"
    by code_simp
  show ?thesis
    by (intro conjI h1 h2 r oversampling_train_only [OF h1 h2])
qed

text \<open>
  Claim C4 as first stated makes the training labels strictly more balanced in every case.
  With five labels of each class the training part of the split is already balanced, the
  oversampler adds nothing, and the returned training labels are as balanced as the original
  ones, not more.
\<close>
theorem oversampling_train_only_counterexample:
  "preprocess_as_prediction (forecast_env balanced_labels)
       (cached (numbered_rows 10) [''day0'', ''day1'']) =
     (Inr (drop 2 (numbered_rows 10), take 2 (numbered_rows 10),
           [0, 1, 0, 1, 0, 1, 0, 1], [0, 1]),
      (cached (numbered_rows 10) [''day0'', ''day1''])\<lparr>feature_keys := Some [''day0'', ''day1'']\<rparr>) \<and>
   concat (labels_for_prediction (forecast_env balanced_labels)) = [0, 1, 0, 1, 0, 1, 0, 1, 0, 1] \<and>
   balance_ratio [0, 1, 0, 1, 0, 1, 0, 1, 0, 1] = 1 \<and>
   balance_ratio [0, 1, 0, 1, 0, 1, 0, 1] = 1 \<and>
   \<not> balance_ratio [0, 1, 0, 1, 0, 1, 0, 1, 0, 1] < balance_ratio [0, 1, 0, 1, 0, 1, 0, 1]"
  by code_simp

end
